theory Spec2Isabelle
  imports Main
begin

section \<open>The archive state: \<open>salt/states/archive.py\<close>\<close>

text \<open>
  The module holds one function, \<open>extracted\<close>, which makes sure an archive is
  extracted in a directory. It owns no data of its own: everything it does goes through
  the injected salt modules (\<open>__salt__\<close>), the options (\<open>__opts__\<close>), the
  environment tag (\<open>__env__\<close>) and the Python library (\<open>os\<close>,
  \<open>tarfile\<close>). The embedding passes those in as a record of functions over an
  abstract world \<open>'w\<close>, threads the world through the calls in the order of the
  source, and logs every call in a trace, so that "this call is never made" is a
  statement about the trace.
\<close>

subsection \<open>Python values\<close>

type_synonym path = string

text \<open>
  \<open>files\<close> in the source is a list of names (zip, rar, tarfile) or the captured
  output of the tar tool, a string; \<open>len\<close> and truthiness work on both.
\<close>

datatype pyseq = PStr string | PList "string list"

datatype pyval = PSeq pyseq | PInt int

fun py_len :: "pyseq \<Rightarrow> nat" where
  "py_len (PStr s) = length s"
| "py_len (PList xs) = length xs"

type_synonym pydict = "string \<rightharpoonup> pyval"

text \<open>The return dictionary of a state: \<open>{'name', 'result', 'changes', 'comment'}\<close>;
  \<open>result\<close> is \<open>True\<close>, \<open>False\<close> or \<open>None\<close>.\<close>

record state_ret =
  ret_name :: string
  ret_result :: "bool option"
  ret_changes :: pydict
  ret_comment :: string

text \<open>Truthiness of \<open>ret['result']\<close>: \<open>None\<close> and \<open>False\<close> are falsy.\<close>

fun truthy :: "bool option \<Rightarrow> bool" where
  "truthy None = False"
| "truthy (Some b) = b"

text \<open>Modelled from the spec: the dictionary that \<open>cmd.run_all\<close> returns. The
  module that builds it is not among the sources; the spec gives its entries: the exit
  code, the standard output and the standard error. The source reads them as
  \<open>results['retcode']\<close>, \<open>results['stdout']\<close> and
  \<open>results['stderr']\<close>, and stores the whole dictionary as the changes.\<close>

record cmd_result =
  retcode :: int
  stdout :: string
  stderr :: string

definition cmd_result_dict :: "cmd_result \<Rightarrow> pydict" where
  "cmd_result_dict r =
     [''retcode'' \<mapsto> PInt (retcode r),
      ''stdout'' \<mapsto> PSeq (PStr (stdout r)),
      ''stderr'' \<mapsto> PSeq (PStr (stderr r))]"

text \<open>The high data handed to \<open>state.high\<close>: one \<open>file.managed\<close> state whose
  id and name are the cache file.\<close>

record high_data =
  hd_id :: path
  hd_name :: path
  hd_source :: string
  hd_source_hash :: "string option"
  hd_makedirs :: bool
  hd_saltenv :: string

datatype pyexn = IndexError | Raised string

subsection \<open>The environment\<close>

text \<open>
  The three existence tests only observe the world (the tests of \<open>os.path\<close>
  answer \<open>False\<close> on an error). Every other call may change it, and may raise
  instead of returning; the source catches nothing, so an exception of a
  collaborator is the outcome of \<open>extracted\<close>. Logging is left out.
\<close>

record 'w env =
  salt_file_directory_exists :: "path \<Rightarrow> 'w \<Rightarrow> bool"
  salt_file_file_exists :: "path \<Rightarrow> 'w \<Rightarrow> bool"
  salt_state_high :: "high_data \<Rightarrow> 'w \<Rightarrow> pyexn + ((string \<times> state_ret) list \<times> 'w)"
  salt_file_makedirs :: "path \<Rightarrow> 'w \<Rightarrow> pyexn + (unit \<times> 'w)"
  salt_archive_unzip :: "path \<Rightarrow> path \<Rightarrow> 'w \<Rightarrow> pyexn + (string list \<times> 'w)"
  salt_archive_unrar :: "path \<Rightarrow> path \<Rightarrow> 'w \<Rightarrow> pyexn + (string list \<times> 'w)"
  salt_cmd_run_all :: "string \<Rightarrow> path \<Rightarrow> 'w \<Rightarrow> pyexn + (cmd_result \<times> 'w)"
  salt_cmd_retcode :: "string \<Rightarrow> 'w \<Rightarrow> pyexn + (int \<times> 'w)"
  salt_file_remove :: "path \<Rightarrow> 'w \<Rightarrow> pyexn + (unit \<times> 'w)"
  os_path_exists :: "path \<Rightarrow> 'w \<Rightarrow> bool"
  os_unlink :: "path \<Rightarrow> 'w \<Rightarrow> pyexn + (unit \<times> 'w)"
  tarfile_getnames :: "path \<Rightarrow> 'w \<Rightarrow> pyexn + (string list \<times> 'w)"
  tarfile_extractall :: "path \<Rightarrow> path \<Rightarrow> 'w \<Rightarrow> pyexn + (unit \<times> 'w)"
  opts_cachedir :: string
  opts_test :: bool
  saltenv :: string

text \<open>One event per call the source makes, with the arguments of the call.\<close>

datatype event =
    FileDirectoryExists path
  | FileFileExists path
  | OsPathExists path
  | StateHigh high_data
  | FileMakedirs path
  | ArchiveUnzip path path
  | ArchiveUnrar path path
  | TarfileGetnames path
  | TarfileExtractall path path
  | CmdRunAll string path
  | CmdRetcode string
  | OsUnlink path
  | FileRemove path

record 'w st =
  trace :: "event list"
  world :: "'w"

definition query :: "event \<Rightarrow> ('w \<Rightarrow> bool) \<Rightarrow> 'w st \<Rightarrow> bool \<times> 'w st" where
  "query ev f s = (f (world s), s\<lparr>trace := trace s @ [ev]\<rparr>)"

definition call :: "event \<Rightarrow> ('w \<Rightarrow> pyexn + ('a \<times> 'w)) \<Rightarrow> 'w st \<Rightarrow> pyexn + ('a \<times> 'w st)" where
  "call ev f s =
     (case f (world s) of
        Inl e \<Rightarrow> Inl e
      | Inr (v, w') \<Rightarrow> Inr (v, \<lparr>trace = trace s @ [ev], world = w'\<rparr>))"

subsection \<open>String helpers of the Python library\<close>

text \<open>\<open>sep.join(xs)\<close>.\<close>

fun str_join :: "string \<Rightarrow> string list \<Rightarrow> string" where
  "str_join sep [] = []"
| "str_join sep [x] = x"
| "str_join sep (x # y # ys) = x @ sep @ str_join sep (y # ys)"

text \<open>\<open>s.replace('/', '_')\<close>.\<close>

definition replace_slash :: "string \<Rightarrow> string" where
  "replace_slash s = map (\<lambda>c. if c = CHR ''/'' then CHR ''_'' else c) s"

text \<open>\<open>os.path.join(a, b)\<close> of \<open>posixpath\<close>: an absolute \<open>b\<close> replaces \<open>a\<close>;
  a separator is inserted unless \<open>a\<close> is empty or ends with one.\<close>

definition os_path_join :: "path \<Rightarrow> path \<Rightarrow> path" where
  "os_path_join a b =
     (if b \<noteq> [] \<and> hd b = CHR ''/'' then b
      else if a = [] \<or> last a = CHR ''/'' then a @ b
      else a @ ''/'' @ b)"

subsection \<open>\<open>extracted\<close>\<close>

text \<open>Line 77.\<close>

definition valid_archives :: "string list" where
  "valid_archives = [''tar'', ''rar'', ''zip'']"

text \<open>Line 76.\<close>

definition initial_ret :: "path \<Rightarrow> state_ret" where
  "initial_ret name =
     \<lparr>ret_name = name, ret_result = None, ret_changes = Map.empty, ret_comment = ''''\<rparr>"

text \<open>A step of the function either returns from it or goes on with a value.\<close>

datatype 'a flow = Return state_ret | Continue 'a

text \<open>Lines 87 to 90: \<open>directory_exists(if_missing) or file_exists(if_missing)\<close>; the
  second test runs only when the first one is false.\<close>

definition if_missing_exists :: "'w env \<Rightarrow> path \<Rightarrow> 'w st \<Rightarrow> bool \<times> 'w st" where
  "if_missing_exists env if_missing s =
     (let (d, s1) = query (FileDirectoryExists if_missing)
                      (salt_file_directory_exists env if_missing) s
      in if d then (True, s1)
         else query (FileFileExists if_missing) (salt_file_file_exists env if_missing) s1)"

text \<open>Lines 96 to 98.\<close>

definition cache_filename :: "'w env \<Rightarrow> path \<Rightarrow> string \<Rightarrow> path" where
  "cache_filename env if_missing archive_format =
     os_path_join (opts_cachedir env) (replace_slash if_missing @ ''.'' @ archive_format)"

text \<open>Lines 99 to 128: the archive is downloaded into the cache unless it is there.
  \<open>file_result[file_result.keys()[0]]\<close> raises \<open>IndexError\<close> on an empty
  dictionary.\<close>

definition download :: "'w env \<Rightarrow> state_ret \<Rightarrow> string \<Rightarrow> string option \<Rightarrow> path \<Rightarrow> 'w st
    \<Rightarrow> pyexn + (unit flow \<times> 'w st)" where
  "download env ret source source_hash filename s =
     (let (cached, s1) = query (OsPathExists filename) (os_path_exists env filename) s
      in if \<not> cached then
           if opts_test env then
             Inr (Return (ret\<lparr>ret_result := None,
                    ret_comment := ''Archive '' @ source @ '' would have been downloaded in cache''\<rparr>), s1)
           else
             let data = \<lparr>hd_id = filename, hd_name = filename, hd_source = source,
                         hd_source_hash = source_hash, hd_makedirs = True,
                         hd_saltenv = saltenv env\<rparr>
             in case call (StateHigh data) (salt_state_high env data) s1 of
                  Inl e \<Rightarrow> Inl e
                | Inr (file_result, s2) \<Rightarrow>
                    (case file_result of
                       [] \<Rightarrow> Inl IndexError
                     | (k, file_result) # rest \<Rightarrow>
                         if \<not> truthy (ret_result file_result) then Inr (Return file_result, s2)
                         else Inr (Continue (), s2))
         else Inr (Continue (), s1))"

text \<open>Lines 76 to 136: everything before the extraction. The step returns from the
  function (wrong format, \<open>if_missing\<close> found, test mode, failed download) or goes
  on with the two locals the rest needs, \<open>if_missing\<close> and \<open>filename\<close>.\<close>

definition prepare :: "'w env \<Rightarrow> state_ret \<Rightarrow> path \<Rightarrow> string \<Rightarrow> string \<Rightarrow> string option
    \<Rightarrow> path option \<Rightarrow> 'w st \<Rightarrow> pyexn + ((path \<times> path) flow \<times> 'w st)" where
  "prepare env ret name source archive_format source_hash if_missing s =
     (if archive_format \<notin> set valid_archives then
        Inr (Return (ret\<lparr>ret_result := Some False,
               ret_comment := name @ '' is not supported, valids: ''
                                @ str_join '','' valid_archives\<rparr>), s)
      else
        let if_missing = (case if_missing of None \<Rightarrow> name | Some m \<Rightarrow> m);
            (found, s1) = if_missing_exists env if_missing s
        in if found then
             Inr (Return (ret\<lparr>ret_result := Some True,
                    ret_comment := if_missing @ '' already exists''\<rparr>), s1)
           else
             let filename = cache_filename env if_missing archive_format
             in case download env ret source source_hash filename s1 of
                  Inl e \<Rightarrow> Inl e
                | Inr (Return r, s2) \<Rightarrow> Inr (Return r, s2)
                | Inr (Continue u, s2) \<Rightarrow>
                    if opts_test env then
                      Inr (Return (ret\<lparr>ret_result := None,
                             ret_comment := ''Archive '' @ source
                               @ '' would have been extracted in '' @ name\<rparr>), s2)
                    else
                      (case call (FileMakedirs name) (salt_file_makedirs env name) s2 of
                         Inl e \<Rightarrow> Inl e
                       | Inr (u, s3) \<Rightarrow> Inr (Continue (if_missing, filename), s3)))"

text \<open>Lines 150 to 152: the loop over \<open>['x', 'f']\<close>; \<open>opt in tar_options\<close> with a
  one-character \<open>opt\<close> asks whether the character occurs in the string.\<close>

definition add_opt :: "string \<Rightarrow> char \<Rightarrow> string" where
  "add_opt tar_options opt =
     (if opt \<notin> set tar_options then ''-'' @ [opt] @ '' '' @ tar_options else tar_options)"

definition normalize_tar_options :: "string \<Rightarrow> string" where
  "normalize_tar_options tar_options = foldl add_opt tar_options [CHR ''x'', CHR ''f'']"

text \<open>Lines 153 and 154: \<open>'tar {0} "{1}"'.format(tar_options, filename)\<close>.\<close>

definition tar_command :: "string \<Rightarrow> path \<Rightarrow> string" where
  \<open>tar_command tar_options filename = ''tar '' @ tar_options @ '' "'' @ filename @ ''"''\<close>

text \<open>Lines 138 to 164: the extraction, by format. The tar tool's nonzero exit code
  returns from the function.\<close>

definition extract_files :: "'w env \<Rightarrow> state_ret \<Rightarrow> path \<Rightarrow> string \<Rightarrow> string option \<Rightarrow> path
    \<Rightarrow> 'w st \<Rightarrow> pyexn + (pyseq flow \<times> 'w st)" where
  "extract_files env ret name archive_format tar_options filename s =
     (if archive_format \<in> set [''zip'', ''rar''] then
        (case (if archive_format = ''zip''
               then call (ArchiveUnzip filename name) (salt_archive_unzip env filename name) s
               else call (ArchiveUnrar filename name) (salt_archive_unrar env filename name) s) of
           Inl e \<Rightarrow> Inl e
         | Inr (files, s1) \<Rightarrow> Inr (Continue (PList files), s1))
      else
        case tar_options of
          None \<Rightarrow>
            (case call (TarfileGetnames filename) (tarfile_getnames env filename) s of
               Inl e \<Rightarrow> Inl e
             | Inr (files, s1) \<Rightarrow>
                 (case call (TarfileExtractall filename name)
                         (tarfile_extractall env filename name) s1 of
                    Inl e \<Rightarrow> Inl e
                  | Inr (u, s2) \<Rightarrow> Inr (Continue (PList files), s2)))
        | Some tar_options \<Rightarrow>
            (let tar_options = normalize_tar_options tar_options;
                 cmd = tar_command tar_options filename
             in case call (CmdRunAll cmd name) (salt_cmd_run_all env cmd name) s of
                  Inl e \<Rightarrow> Inl e
                | Inr (results, s1) \<Rightarrow>
                    if retcode results \<noteq> 0 then
                      Inr (Return (ret\<lparr>ret_result := Some False,
                             ret_changes := cmd_result_dict results\<rparr>), s1)
                    else
                      (case call (CmdRetcode ''tar --version | grep bsdtar'')
                              (salt_cmd_retcode env ''tar --version | grep bsdtar'') s1 of
                         Inl e \<Rightarrow> Inl e
                       | Inr (rc, s2) \<Rightarrow>
                           let files = (if rc = 0 then stderr results else stdout results);
                               files = (if files = [] then ''no tar output so far'' else files)
                           in Inr (Continue (PStr files), s2))))"

text \<open>Lines 165 to 178: the result, from \<open>files\<close>.\<close>

definition finish :: "'w env \<Rightarrow> state_ret \<Rightarrow> path \<Rightarrow> string \<Rightarrow> path \<Rightarrow> bool \<Rightarrow> path \<Rightarrow> pyseq
    \<Rightarrow> 'w st \<Rightarrow> pyexn + (state_ret \<times> 'w st)" where
  "finish env ret name source if_missing keep filename files s =
     (if py_len files \<noteq> 0 then
        let ret = ret\<lparr>ret_result := Some True,
                    ret_changes := (ret_changes ret)
                      (''directories_created'' \<mapsto>
                         PSeq (PList (if if_missing \<noteq> name then [name, if_missing] else [name])),
                       ''extracted_files'' \<mapsto> PSeq files),
                    ret_comment := source @ '' extracted in '' @ name\<rparr>
        in if \<not> keep then
             case call (OsUnlink filename) (os_unlink env filename) s of
               Inl e \<Rightarrow> Inl e
             | Inr (u, s1) \<Rightarrow> Inr (ret, s1)
           else Inr (ret, s)
      else
        case call (FileRemove if_missing) (salt_file_remove env if_missing) s of
          Inl e \<Rightarrow> Inl e
        | Inr (u, s1) \<Rightarrow>
            Inr (ret\<lparr>ret_result := Some False,
                   ret_comment := ''Can't extract content of '' @ source\<rparr>, s1))"

text \<open>The function: the three steps in sequence. The arguments are those of the source,
  in its order; \<open>None\<close> for \<open>tar_options\<close>, \<open>source_hash\<close> and
  \<open>if_missing\<close> is the default.\<close>

definition extracted :: "'w env \<Rightarrow> path \<Rightarrow> string \<Rightarrow> string \<Rightarrow> string option \<Rightarrow> string option
    \<Rightarrow> path option \<Rightarrow> bool \<Rightarrow> 'w st \<Rightarrow> pyexn + (state_ret \<times> 'w st)" where
  "extracted env name source archive_format tar_options source_hash if_missing keep s =
     (let ret = initial_ret name
      in case prepare env ret name source archive_format source_hash if_missing s of
           Inl e \<Rightarrow> Inl e
         | Inr (Return r, s1) \<Rightarrow> Inr (r, s1)
         | Inr (Continue (if_missing, filename), s1) \<Rightarrow>
             (case extract_files env ret name archive_format tar_options filename s1 of
                Inl e \<Rightarrow> Inl e
              | Inr (Return r, s2) \<Rightarrow> Inr (r, s2)
              | Inr (Continue files, s2) \<Rightarrow>
                  finish env ret name source if_missing keep filename files s2))"

subsection \<open>An environment to run the function in\<close>

text \<open>
  A filesystem in memory, as a list of paths with their kind, the most recent first,
  and collaborators that behave as the real ones do on it. The downloaded archive holds
  \<open>a.txt\<close> and \<open>b.txt\<close>; the tar tool is GNU tar and prints nothing.
\<close>

datatype node = File | Dir

type_synonym fs = "(path \<times> node) list"

definition remove_path :: "path \<Rightarrow> fs \<Rightarrow> fs" where
  "remove_path p w = filter (\<lambda>(q, n). q \<noteq> p) w"

definition unpack :: "path \<Rightarrow> fs \<Rightarrow> fs" where
  "unpack dir w = (dir @ ''/a.txt'', File) # (dir @ ''/b.txt'', File) # w"

definition demo_env :: "fs env" where
  "demo_env =
     \<lparr>salt_file_directory_exists = (\<lambda>p w. map_of w p = Some Dir),
      salt_file_file_exists = (\<lambda>p w. map_of w p = Some File),
      salt_state_high = (\<lambda>d w.
        Inr ([(hd_id d, \<lparr>ret_name = hd_name d, ret_result = Some True,
                          ret_changes = [''diff'' \<mapsto> PSeq (PStr ''New file'')],
                          ret_comment = ''File '' @ hd_name d @ '' updated''\<rparr>)],
             (hd_name d, File) # w)),
      salt_file_makedirs = (\<lambda>p w. Inr ((), (p, Dir) # w)),
      salt_archive_unzip = (\<lambda>f dir w. Inr ([''a.txt'', ''b.txt''], unpack dir w)),
      salt_archive_unrar = (\<lambda>f dir w. Inr ([''a.txt'', ''b.txt''], unpack dir w)),
      salt_cmd_run_all = (\<lambda>c dir w.
        Inr (\<lparr>retcode = 0, stdout = '''', stderr = ''''\<rparr>, unpack dir w)),
      salt_cmd_retcode = (\<lambda>c w. Inr (1, w)),
      salt_file_remove = (\<lambda>p w. Inr ((), remove_path p w)),
      os_path_exists = (\<lambda>p w. map_of w p \<noteq> None),
      os_unlink = (\<lambda>p w.
        if map_of w p = Some File then Inr ((), remove_path p w)
        else Inl (Raised ''OSError'')),
      tarfile_getnames = (\<lambda>f w. Inr ([''a.txt'', ''b.txt''], w)),
      tarfile_extractall = (\<lambda>f dir w. Inr ((), unpack dir w)),
      opts_cachedir = ''/var/cache'',
      opts_test = False,
      saltenv = ''base''\<rparr>"

definition start :: "fs \<Rightarrow> fs st" where
  "start w = \<lparr>trace = [], world = w\<rparr>"

text \<open>Three variants: the download fails, the zip archive lists no file, the tar tool
  exits with code 2.\<close>

definition download_fails :: "fs env" where
  "download_fails = demo_env\<lparr>salt_state_high := (\<lambda>d w.
     Inr ([(hd_id d, \<lparr>ret_name = hd_name d, ret_result = Some False,
                       ret_changes = Map.empty,
                       ret_comment = ''Source file '' @ hd_source d @ '' not found''\<rparr>)], w))\<rparr>"

definition empty_zip :: "fs env" where
  "empty_zip = demo_env\<lparr>salt_archive_unzip := (\<lambda>f dir w. Inr ([], w))\<rparr>"

definition tar_fails :: "fs env" where
  "tar_fails = demo_env\<lparr>salt_cmd_run_all := (\<lambda>c dir w.
     Inr (\<lparr>retcode = 2, stdout = '''', stderr = ''tar: Error is not recoverable''\<rparr>, w))\<rparr>"

section \<open>Properties\<close>

subsection \<open>Helper facts\<close>

lemma str_join_valid_archives: "str_join '','' valid_archives = ''tar,rar,zip''"
  by (simp add: valid_archives_def)

lemma set_valid_archives: "set valid_archives = {''tar'', ''zip'', ''rar''}"
  by (auto simp: valid_archives_def)

lemma if_missing_exists_eq:
  "if_missing_exists env p s =
     (salt_file_directory_exists env p (world s) \<or> salt_file_file_exists env p (world s),
      s\<lparr>trace := trace s @
           (if salt_file_directory_exists env p (world s) then [FileDirectoryExists p]
            else [FileDirectoryExists p, FileFileExists p])\<rparr>)"
  by (simp add: if_missing_exists_def query_def)

lemma prepare_unsupported:
  "archive_format \<notin> set valid_archives \<Longrightarrow>
   prepare env ret name source archive_format source_hash if_missing s =
     Inr (Return (ret\<lparr>ret_result := Some False,
            ret_comment := name @ '' is not supported, valids: tar,rar,zip''\<rparr>), s)"
  by (simp add: prepare_def str_join_valid_archives)

lemma download_cached:
  "os_path_exists env filename (world s) \<Longrightarrow>
   download env ret source source_hash filename s =
     Inr (Continue (), s\<lparr>trace := trace s @ [OsPathExists filename]\<rparr>)"
  by (simp add: download_def query_def)

lemma download_test:
  "\<not> os_path_exists env filename (world s) \<Longrightarrow> opts_test env \<Longrightarrow>
   download env ret source source_hash filename s =
     Inr (Return (ret\<lparr>ret_result := None,
            ret_comment := ''Archive '' @ source @ '' would have been downloaded in cache''\<rparr>),
          s\<lparr>trace := trace s @ [OsPathExists filename]\<rparr>)"
  by (simp add: download_def query_def)

lemma download_fetch:
  "\<not> os_path_exists env filename (world s) \<Longrightarrow> \<not> opts_test env \<Longrightarrow>
   salt_state_high env
      \<lparr>hd_id = filename, hd_name = filename, hd_source = source,
        hd_source_hash = source_hash, hd_makedirs = True, hd_saltenv = saltenv env\<rparr>
      (world s) = Inr ((k, file_result) # rest, w') \<Longrightarrow>
   download env ret source source_hash filename s =
     Inr (if truthy (ret_result file_result) then Continue () else Return file_result,
          \<lparr>trace = trace s @ [OsPathExists filename,
              StateHigh \<lparr>hd_id = filename, hd_name = filename, hd_source = source,
                hd_source_hash = source_hash, hd_makedirs = True, hd_saltenv = saltenv env\<rparr>],
            world = w'\<rparr>)"
  by (simp add: download_def query_def call_def)

lemma prepare_Continue:
  assumes "prepare env ret name source archive_format source_hash if_missing s =
             Inr (Continue (p, filename), s1)"
  shows "archive_format \<in> set valid_archives"
    and "p = (case if_missing of None \<Rightarrow> name | Some m \<Rightarrow> m)"
    and "filename = cache_filename env p archive_format"
    and "\<not> opts_test env"
    and "\<exists>evs. trace s1 = trace s @ evs \<and> (\<forall>q. OsUnlink q \<notin> set evs \<and> FileRemove q \<notin> set evs)"
  using assms
  by (auto simp: prepare_def if_missing_exists_eq download_def query_def call_def Let_def
      split: if_splits sum.splits prod.splits flow.splits list.splits)

lemma extract_files_trace:
  assumes "extract_files env ret name archive_format tar_options filename s1 = Inr (x, s2)"
  shows "\<exists>evs. trace s2 = trace s1 @ evs \<and> (\<forall>q. OsUnlink q \<notin> set evs \<and> FileRemove q \<notin> set evs)"
  using assms
  by (auto simp: extract_files_def call_def Let_def
      split: if_splits sum.splits prod.splits option.splits)

lemma trace_append2:
  assumes "\<exists>evs. trace s1 = trace s @ evs \<and> (\<forall>q. OsUnlink q \<notin> set evs \<and> FileRemove q \<notin> set evs)"
    and "\<exists>evs. trace s2 = trace s1 @ evs \<and> (\<forall>q. OsUnlink q \<notin> set evs \<and> FileRemove q \<notin> set evs)"
  shows "\<exists>evs. trace s2 = trace s @ evs \<and> (\<forall>q. OsUnlink q \<notin> set evs \<and> FileRemove q \<notin> set evs)"
proof -
  from assms(1) obtain e1 where e1: "trace s1 = trace s @ e1"
    "\<forall>q. OsUnlink q \<notin> set e1 \<and> FileRemove q \<notin> set e1" by blast
  from assms(2) obtain e2 where e2: "trace s2 = trace s1 @ e2"
    "\<forall>q. OsUnlink q \<notin> set e2 \<and> FileRemove q \<notin> set e2" by blast
  have "trace s2 = trace s @ (e1 @ e2)" using e1(1) e2(1) by simp
  moreover have "\<forall>q. OsUnlink q \<notin> set (e1 @ e2) \<and> FileRemove q \<notin> set (e1 @ e2)"
    using e1(2) e2(2) by simp
  ultimately show ?thesis by blast
qed

lemma extract_files_tar_tool:
  assumes "salt_cmd_run_all env (tar_command (normalize_tar_options opts) filename) name
             (world s1) = Inr (results, w2)"
  shows "extract_files env ret name ''tar'' (Some opts) filename s1 =
           (if retcode results \<noteq> 0 then
              Inr (Return (ret\<lparr>ret_result := Some False,
                     ret_changes := cmd_result_dict results\<rparr>),
                   \<lparr>trace = trace s1 @
                      [CmdRunAll (tar_command (normalize_tar_options opts) filename) name],
                     world = w2\<rparr>)
            else
              case salt_cmd_retcode env ''tar --version | grep bsdtar'' w2 of
                Inl e \<Rightarrow> Inl e
              | Inr (rc, w3) \<Rightarrow>
                  Inr (Continue (PStr
                         (if (if rc = 0 then stderr results else stdout results) = []
                          then ''no tar output so far''
                          else (if rc = 0 then stderr results else stdout results))),
                       \<lparr>trace = trace s1 @
                          [CmdRunAll (tar_command (normalize_tar_options opts) filename) name,
                           CmdRetcode ''tar --version | grep bsdtar''],
                         world = w3\<rparr>))"
  using assms
  by (simp add: extract_files_def call_def Let_def split: sum.splits prod.splits)

lemma extracted_after_files:
  assumes "prepare env (initial_ret name) name source archive_format source_hash if_missing s =
             Inr (Continue (p, filename), s1)"
    and "extract_files env (initial_ret name) name archive_format tar_options filename s1 =
             Inr (Continue files, s2)"
  shows "extracted env name source archive_format tar_options source_hash if_missing keep s =
           finish env (initial_ret name) name source p keep filename files s2"
  using assms by (simp add: extracted_def)

lemma extracted_after_return:
  assumes "prepare env (initial_ret name) name source archive_format source_hash if_missing s =
             Inr (Continue (p, filename), s1)"
    and "extract_files env (initial_ret name) name archive_format tar_options filename s1 =
             Inr (Return r, s2)"
  shows "extracted env name source archive_format tar_options source_hash if_missing keep s =
           Inr (r, s2)"
  using assms by (simp add: extracted_def)

lemma finish_nonempty:
  assumes "py_len files \<noteq> 0"
  shows "finish env (initial_ret name) name source p keep filename files s2 =
           (if keep then
              Inr (\<lparr>ret_name = name, ret_result = Some True,
                     ret_changes =
                       [''directories_created'' \<mapsto>
                          PSeq (PList (if p \<noteq> name then [name, p] else [name])),
                        ''extracted_files'' \<mapsto> PSeq files],
                     ret_comment = source @ '' extracted in '' @ name\<rparr>, s2)
            else
              case os_unlink env filename (world s2) of
                Inl e \<Rightarrow> Inl e
              | Inr (u, w3) \<Rightarrow>
                  Inr (\<lparr>ret_name = name, ret_result = Some True,
                         ret_changes =
                           [''directories_created'' \<mapsto>
                              PSeq (PList (if p \<noteq> name then [name, p] else [name])),
                            ''extracted_files'' \<mapsto> PSeq files],
                         ret_comment = source @ '' extracted in '' @ name\<rparr>,
                       \<lparr>trace = trace s2 @ [OsUnlink filename], world = w3\<rparr>))"
  using assms
  by (simp add: finish_def initial_ret_def call_def Let_def split: sum.splits prod.splits)

lemma finish_empty:
  assumes "py_len files = 0"
  shows "finish env (initial_ret name) name source p keep filename files s2 =
           (case salt_file_remove env p (world s2) of
              Inl e \<Rightarrow> Inl e
            | Inr (u, w3) \<Rightarrow>
                Inr (\<lparr>ret_name = name, ret_result = Some False, ret_changes = Map.empty,
                       ret_comment = ''Can't extract content of '' @ source\<rparr>,
                     \<lparr>trace = trace s2 @ [FileRemove p], world = w3\<rparr>))"
  using assms
  by (simp add: finish_def initial_ret_def call_def split: sum.splits prod.splits)

lemmas run_defs = demo_env_def start_def initial_ret_def prepare_def if_missing_exists_eq
  download_def query_def call_def cache_filename_def os_path_join_def replace_slash_def
  valid_archives_def extract_files_def unpack_def remove_path_def Let_def

subsection \<open>Unsupported format\<close>

text \<open>
  C5. A format other than tar, zip and rar (\<open>7z\<close>, say) fails at once: the
  result is \<open>False\<close>, the comment lists \<open>tar,rar,zip\<close> as the valid
  values, and the state comes back as it went in, trace and world: no collaborator was
  called and the filesystem was not looked at.
\<close>

theorem unsupported_format_fails_first:
  assumes "archive_format \<notin> {''tar'', ''zip'', ''rar''}"
  shows "extracted env name source archive_format tar_options source_hash if_missing keep s =
           Inr (\<lparr>ret_name = name, ret_result = Some False, ret_changes = Map.empty,
                  ret_comment = name @ '' is not supported, valids: '' @ ''tar,rar,zip''\<rparr>, s)"
  using assms
  by (simp add: extracted_def prepare_unsupported set_valid_archives initial_ret_def)

theorem unsupported_format_fails_first_witness:
  "''7z'' \<notin> {''tar'', ''zip'', ''rar''} \<and>
   extracted demo_env ''/opt'' ''salt://app.7z'' ''7z'' None None None False
       (start [(''/opt'', Dir)]) =
     Inr (\<lparr>ret_name = ''/opt'', ret_result = Some False, ret_changes = Map.empty,
            ret_comment = ''/opt is not supported, valids: tar,rar,zip''\<rparr>,
          \<lparr>trace = [], world = [(''/opt'', Dir)]\<rparr>)"
  using unsupported_format_fails_first [of "''7z''" demo_env "''/opt''" "''salt://app.7z''"
      None None None False "start [(''/opt'', Dir)]"]
  by (simp add: start_def)

text \<open>
  C10. The comment of that failure is built from \<open>name\<close>, the target path, and
  not from the format that was refused: it reads
  \<open><name> is not supported, valids: tar,rar,zip\<close>, whatever the format was.
\<close>

theorem unsupported_format_message_names_target:
  assumes "archive_format \<notin> set valid_archives"
  shows "\<exists>r. extracted env name source archive_format tar_options source_hash if_missing keep s
               = Inr (r, s) \<and>
             ret_comment r = name @ '' is not supported, valids: tar,rar,zip'' \<and>
             (archive_format \<noteq> name \<longrightarrow>
                ret_comment r \<noteq> archive_format @ '' is not supported, valids: tar,rar,zip'')"
  using assms
  by (simp add: extracted_def prepare_unsupported initial_ret_def)

theorem unsupported_format_message_names_target_witness:
  "''7z'' \<notin> set valid_archives \<and>
   ret_comment (fst (projr (extracted demo_env ''/opt'' ''salt://app.7z'' ''7z'' None None None
       False (start [])))) = ''/opt is not supported, valids: tar,rar,zip''"
  using unsupported_format_message_names_target [of "''7z''" demo_env "''/opt''"
      "''salt://app.7z''" None None None False "start []"]
  by (auto simp: valid_archives_def)

subsection \<open>The target is already there\<close>

text \<open>
  C1, as the code has it. When \<open>if_missing\<close> (by default \<open>name\<close>) exists,
  as a directory or as a file, a request for one of the three formats returns
  \<open>True\<close> with no change and the comment \<open><if_missing> already exists\<close>.
  The world is the one it started in, and the trace grew by the existence tests alone:
  the directory test, and the file test when the directory test said no. Nothing is
  fetched, extracted or changed.
\<close>

theorem if_missing_found_satisfied:
  assumes "archive_format \<in> {''tar'', ''zip'', ''rar''}"
    and "p = (case if_missing of None \<Rightarrow> name | Some m \<Rightarrow> m)"
    and "salt_file_directory_exists env p (world s) \<or> salt_file_file_exists env p (world s)"
  shows "extracted env name source archive_format tar_options source_hash if_missing keep s =
           Inr (\<lparr>ret_name = name, ret_result = Some True, ret_changes = Map.empty,
                  ret_comment = p @ '' already exists''\<rparr>,
                s\<lparr>trace := trace s @
                     (if salt_file_directory_exists env p (world s)
                      then [FileDirectoryExists p]
                      else [FileDirectoryExists p, FileFileExists p])\<rparr>)"
proof -
  from assms(1) have fmt: "archive_format \<in> set valid_archives"
    by (auto simp: valid_archives_def)
  have "prepare env (initial_ret name) name source archive_format source_hash if_missing s =
          Inr (Return ((initial_ret name)\<lparr>ret_result := Some True,
                 ret_comment := p @ '' already exists''\<rparr>),
               s\<lparr>trace := trace s @
                    (if salt_file_directory_exists env p (world s)
                     then [FileDirectoryExists p]
                     else [FileDirectoryExists p, FileFileExists p])\<rparr>)"
    using fmt assms(2,3) by (simp add: prepare_def if_missing_exists_eq Let_def)
  then show ?thesis
    by (simp add: extracted_def initial_ret_def)
qed

theorem if_missing_found_satisfied_witness:
  "''zip'' \<in> {''tar'', ''zip'', ''rar''} \<and>
   salt_file_directory_exists demo_env ''/opt/app'' (world (start [(''/opt/app'', Dir)])) \<and>
   extracted demo_env ''/opt'' ''salt://app.zip'' ''zip'' None None (Some ''/opt/app'') False
       (start [(''/opt/app'', Dir)]) =
     Inr (\<lparr>ret_name = ''/opt'', ret_result = Some True, ret_changes = Map.empty,
            ret_comment = ''/opt/app already exists''\<rparr>,
          \<lparr>trace = [FileDirectoryExists ''/opt/app''], world = [(''/opt/app'', Dir)]\<rparr>)"
  using if_missing_found_satisfied [where archive_format = "''zip''" and p = "''/opt/app''"
      and if_missing = "Some ''/opt/app''" and name = "''/opt''" and env = demo_env
      and s = "start [(''/opt/app'', Dir)]" and source = "''salt://app.zip''"
      and tar_options = None and source_hash = None and keep = False]
  by (simp add: demo_env_def start_def)

text \<open>
  C1 as the claim words it, for any request, fails where the format is not one of the
  three: the format is checked first (line 79), so with \<open>/opt/app\<close> there and
  the format \<open>7z\<close> the result is \<open>False\<close>, with the comment of C5.
\<close>

theorem if_missing_found_unsupported_counterexample:
  "salt_file_file_exists demo_env ''/opt/app'' [(''/opt/app'', File)] \<and>
   extracted demo_env ''/opt'' ''salt://app.7z'' ''7z'' None None (Some ''/opt/app'') False
       (start [(''/opt/app'', File)]) =
     Inr (\<lparr>ret_name = ''/opt'', ret_result = Some False, ret_changes = Map.empty,
            ret_comment = ''/opt is not supported, valids: tar,rar,zip''\<rparr>,
          \<lparr>trace = [], world = [(''/opt/app'', File)]\<rparr>)"
  by (simp add: extracted_def prepare_unsupported valid_archives_def initial_ret_def
      demo_env_def start_def)

subsection \<open>Test mode\<close>

text \<open>
  C2, as the code has it. In test mode (\<open>__opts__['test']\<close>), with
  \<open>if_missing\<close> absent, the run makes no call but existence tests and leaves the
  world as it is, whether the archive is in the cache or not: no \<open>state.high\<close>,
  no \<open>file.makedirs\<close>, no extraction. For one of the three formats the trace
  grows by the three tests and the result is \<open>None\<close>, the "would change" result,
  whose comment says whether the archive would be downloaded or extracted; for any other
  format the result is the \<open>False\<close> of C5 and not even the tests are made.
\<close>

theorem test_mode_only_observes:
  assumes "opts_test env"
    and "p = (case if_missing of None \<Rightarrow> name | Some m \<Rightarrow> m)"
    and "\<not> salt_file_directory_exists env p (world s)"
    and "\<not> salt_file_file_exists env p (world s)"
    and "filename = cache_filename env p archive_format"
  shows "extracted env name source archive_format tar_options source_hash if_missing keep s =
           (if archive_format \<in> {''tar'', ''zip'', ''rar''} then
              Inr (\<lparr>ret_name = name, ret_result = None, ret_changes = Map.empty,
                     ret_comment = ''Archive '' @ source @
                       (if os_path_exists env filename (world s)
                        then '' would have been extracted in '' @ name
                        else '' would have been downloaded in cache'')\<rparr>,
                   s\<lparr>trace := trace s @
                        [FileDirectoryExists p, FileFileExists p, OsPathExists filename]\<rparr>)
            else
              Inr (\<lparr>ret_name = name, ret_result = Some False, ret_changes = Map.empty,
                     ret_comment = name @ '' is not supported, valids: tar,rar,zip''\<rparr>, s))"
proof (cases "archive_format \<in> set valid_archives")
  case False
  then show ?thesis
    by (simp add: extracted_def prepare_unsupported set_valid_archives initial_ret_def)
next
  case fmt: True
  let ?s1 = "s\<lparr>trace := trace s @ [FileDirectoryExists p, FileFileExists p]\<rparr>"
  have ex: "if_missing_exists env p s = (False, ?s1)"
    using assms(3,4) by (simp add: if_missing_exists_eq)
  show ?thesis
  proof (cases "os_path_exists env filename (world s)")
    case True
    then have "download env (initial_ret name) source source_hash filename ?s1 =
        Inr (Continue (), ?s1\<lparr>trace := trace ?s1 @ [OsPathExists filename]\<rparr>)"
      by (intro download_cached) simp
    then show ?thesis
      using fmt ex assms(1,2,5) True
      by (simp add: extracted_def prepare_def initial_ret_def Let_def set_valid_archives)
  next
    case False
    then have "download env (initial_ret name) source source_hash filename ?s1 =
        Inr (Return ((initial_ret name)\<lparr>ret_result := None,
               ret_comment := ''Archive '' @ source @ '' would have been downloaded in cache''\<rparr>),
             ?s1\<lparr>trace := trace ?s1 @ [OsPathExists filename]\<rparr>)"
      using assms(1) by (intro download_test) simp_all
    then show ?thesis
      using fmt ex assms(1,2,5) False
      by (simp add: extracted_def prepare_def initial_ret_def Let_def set_valid_archives)
  qed
qed

theorem test_mode_only_observes_witness:
  "opts_test (demo_env\<lparr>opts_test := True\<rparr>) \<and>
   \<not> salt_file_directory_exists (demo_env\<lparr>opts_test := True\<rparr>) ''/opt'' [] \<and>
   \<not> salt_file_file_exists (demo_env\<lparr>opts_test := True\<rparr>) ''/opt'' [] \<and>
   cache_filename (demo_env\<lparr>opts_test := True\<rparr>) ''/opt'' ''zip'' = ''/var/cache/_opt.zip'' \<and>
   extracted (demo_env\<lparr>opts_test := True\<rparr>) ''/opt'' ''salt://app.zip'' ''zip'' None None None
       False (start []) =
     Inr (\<lparr>ret_name = ''/opt'', ret_result = None, ret_changes = Map.empty,
            ret_comment = ''Archive salt://app.zip would have been downloaded in cache''\<rparr>,
          \<lparr>trace = [FileDirectoryExists ''/opt'', FileFileExists ''/opt'',
                    OsPathExists ''/var/cache/_opt.zip''],
            world = []\<rparr>)"
  using test_mode_only_observes [where archive_format = "''zip''"
      and env = "demo_env\<lparr>opts_test := True\<rparr>" and p = "''/opt''" and if_missing = None
      and name = "''/opt''" and s = "start []" and filename = "''/var/cache/_opt.zip''"
      and source = "''salt://app.zip''" and tar_options = None and source_hash = None
      and keep = False]
  by (simp add: demo_env_def start_def cache_filename_def os_path_join_def replace_slash_def)

text \<open>
  C2 as the claim words it, for every request, fails on its last part: in test mode
  with \<open>/opt\<close> absent, the format \<open>7z\<close> gives \<open>False\<close> and the
  comment of C5, not the "would change" result.
\<close>

theorem test_mode_unsupported_counterexample:
  "opts_test (demo_env\<lparr>opts_test := True\<rparr>) \<and>
   \<not> salt_file_directory_exists (demo_env\<lparr>opts_test := True\<rparr>) ''/opt'' [] \<and>
   \<not> salt_file_file_exists (demo_env\<lparr>opts_test := True\<rparr>) ''/opt'' [] \<and>
   extracted (demo_env\<lparr>opts_test := True\<rparr>) ''/opt'' ''salt://app.7z'' ''7z'' None None None
       False (start []) =
     Inr (\<lparr>ret_name = ''/opt'', ret_result = Some False, ret_changes = Map.empty,
            ret_comment = ''/opt is not supported, valids: tar,rar,zip''\<rparr>,
          \<lparr>trace = [], world = []\<rparr>)"
  by (simp add: extracted_def prepare_unsupported valid_archives_def initial_ret_def
      demo_env_def start_def)

subsection \<open>Download\<close>

text \<open>
  C6. Outside test mode, with \<open>if_missing\<close> absent and the archive not in the
  cache, \<open>state.high\<close> is called once; when the result of its first state is
  falsy, \<open>extracted\<close> returns that very dictionary, and stops: the trace ends
  with the one \<open>StateHigh\<close> event.
\<close>

theorem failed_download_passed_through:
  assumes "archive_format \<in> {''tar'', ''zip'', ''rar''}"
    and "p = (case if_missing of None \<Rightarrow> name | Some m \<Rightarrow> m)"
    and "\<not> salt_file_directory_exists env p (world s)"
    and "\<not> salt_file_file_exists env p (world s)"
    and "filename = cache_filename env p archive_format"
    and "\<not> os_path_exists env filename (world s)"
    and "\<not> opts_test env"
    and "data = \<lparr>hd_id = filename, hd_name = filename, hd_source = source,
                  hd_source_hash = source_hash, hd_makedirs = True, hd_saltenv = saltenv env\<rparr>"
    and "salt_state_high env data (world s) = Inr ((k, file_result) # rest, w')"
    and "\<not> truthy (ret_result file_result)"
  shows "extracted env name source archive_format tar_options source_hash if_missing keep s =
           Inr (file_result,
                \<lparr>trace = trace s @ [FileDirectoryExists p, FileFileExists p,
                                     OsPathExists filename, StateHigh data],
                  world = w'\<rparr>)"
proof -
  from assms(1) have fmt: "archive_format \<in> set valid_archives"
    by (auto simp: valid_archives_def)
  let ?s1 = "s\<lparr>trace := trace s @ [FileDirectoryExists p, FileFileExists p]\<rparr>"
  have ex: "if_missing_exists env p s = (False, ?s1)"
    using assms(3,4) by (simp add: if_missing_exists_eq)
  have "download env (initial_ret name) source source_hash filename ?s1 =
          Inr (if truthy (ret_result file_result) then Continue () else Return file_result,
               \<lparr>trace = trace ?s1 @ [OsPathExists filename, StateHigh data], world = w'\<rparr>)"
    unfolding assms(8)
    using assms(6,7,9) by (intro download_fetch) (simp_all add: assms(8))
  then have "download env (initial_ret name) source source_hash filename ?s1 =
          Inr (Return file_result,
               \<lparr>trace = trace s @ [FileDirectoryExists p, FileFileExists p,
                                    OsPathExists filename, StateHigh data], world = w'\<rparr>)"
    using assms(10) by simp
  then show ?thesis
    using fmt ex assms(2,5)
    by (simp add: extracted_def prepare_def Let_def)
qed

theorem failed_download_passed_through_witness:
  "\<not> salt_file_directory_exists download_fails ''/opt'' [] \<and>
   \<not> salt_file_file_exists download_fails ''/opt'' [] \<and>
   \<not> os_path_exists download_fails ''/var/cache/_opt.zip'' [] \<and>
   \<not> opts_test download_fails \<and>
   extracted download_fails ''/opt'' ''salt://app.zip'' ''zip'' None None None False (start []) =
     Inr (\<lparr>ret_name = ''/var/cache/_opt.zip'', ret_result = Some False,
            ret_changes = Map.empty,
            ret_comment = ''Source file salt://app.zip not found''\<rparr>,
          \<lparr>trace = [FileDirectoryExists ''/opt'', FileFileExists ''/opt'',
                    OsPathExists ''/var/cache/_opt.zip'',
                    StateHigh \<lparr>hd_id = ''/var/cache/_opt.zip'',
                      hd_name = ''/var/cache/_opt.zip'', hd_source = ''salt://app.zip'',
                      hd_source_hash = None, hd_makedirs = True, hd_saltenv = ''base''\<rparr>],
            world = []\<rparr>)"
  using failed_download_passed_through [where archive_format = "''zip''" and p = "''/opt''"
      and if_missing = None and name = "''/opt''" and env = download_fails and s = "start []"
      and filename = "''/var/cache/_opt.zip''" and source = "''salt://app.zip''"
      and source_hash = None and tar_options = None and keep = False
      and k = "''/var/cache/_opt.zip''" and rest = "[]" and w' = "[]"
      and data = "\<lparr>hd_id = ''/var/cache/_opt.zip'',
                      hd_name = ''/var/cache/_opt.zip'', hd_source = ''salt://app.zip'',
                      hd_source_hash = None, hd_makedirs = True, hd_saltenv = ''base''\<rparr>"
      and file_result = "\<lparr>ret_name = ''/var/cache/_opt.zip'', ret_result = Some False,
            ret_changes = Map.empty,
            ret_comment = ''Source file salt://app.zip not found''\<rparr>"]
  by (simp add: download_fails_def demo_env_def start_def cache_filename_def os_path_join_def
      replace_slash_def)

subsection \<open>The result of the extraction\<close>

text \<open>
  C3. When the run reaches the extraction and the extraction yields \<open>files\<close>
  with \<open>len(files)\<close> not zero, the result is \<open>True\<close>, the changes are
  \<open>directories_created\<close> = \<open>[name]\<close>, with \<open>if_missing\<close> appended when
  it differs from \<open>name\<close>, and \<open>extracted_files\<close> = \<open>files\<close>, and the
  comment is \<open><source> extracted in <name>\<close>. With \<open>keep\<close> the run
  ends there, and it has called neither \<open>os.unlink\<close> nor \<open>file.remove\<close>;
  without \<open>keep\<close> it calls \<open>os.unlink\<close> on the cache file as its last
  step (an exception of \<open>os.unlink\<close> is not caught).
\<close>

theorem nonempty_extraction_changed:
  assumes "prepare env (initial_ret name) name source archive_format source_hash if_missing s =
             Inr (Continue (p, filename), s1)"
    and "extract_files env (initial_ret name) name archive_format tar_options filename s1 =
             Inr (Continue files, s2)"
    and "py_len files \<noteq> 0"
  shows "p = (case if_missing of None \<Rightarrow> name | Some m \<Rightarrow> m) \<and>
         filename = cache_filename env p archive_format \<and>
         (\<exists>evs. trace s2 = trace s @ evs \<and>
                (\<forall>q. OsUnlink q \<notin> set evs \<and> FileRemove q \<notin> set evs)) \<and>
         extracted env name source archive_format tar_options source_hash if_missing keep s =
           (if keep then
              Inr (\<lparr>ret_name = name, ret_result = Some True,
                     ret_changes =
                       [''directories_created'' \<mapsto>
                          PSeq (PList (if p \<noteq> name then [name, p] else [name])),
                        ''extracted_files'' \<mapsto> PSeq files],
                     ret_comment = source @ '' extracted in '' @ name\<rparr>, s2)
            else
              case os_unlink env filename (world s2) of
                Inl e \<Rightarrow> Inl e
              | Inr (u, w3) \<Rightarrow>
                  Inr (\<lparr>ret_name = name, ret_result = Some True,
                         ret_changes =
                           [''directories_created'' \<mapsto>
                              PSeq (PList (if p \<noteq> name then [name, p] else [name])),
                            ''extracted_files'' \<mapsto> PSeq files],
                         ret_comment = source @ '' extracted in '' @ name\<rparr>,
                       \<lparr>trace = trace s2 @ [OsUnlink filename], world = w3\<rparr>))"
proof -
  note pc = prepare_Continue [OF assms(1)]
  have tr: "\<exists>evs. trace s2 = trace s @ evs \<and>
                 (\<forall>q. OsUnlink q \<notin> set evs \<and> FileRemove q \<notin> set evs)"
    by (rule trace_append2 [OF pc(5) extract_files_trace [OF assms(2)]])
  have "extracted env name source archive_format tar_options source_hash if_missing keep s =
          finish env (initial_ret name) name source p keep filename files s2"
    by (rule extracted_after_files [OF assms(1,2)])
  with pc(2,3) tr show ?thesis
    by (simp only: finish_nonempty [OF assms(3)] simp_thms)
qed

theorem nonempty_extraction_changed_witness:
  "prepare demo_env (initial_ret ''/opt'') ''/opt'' ''salt://app.tar'' ''tar'' None
       (Some ''/opt/app'') (start []) =
     Inr (Continue (''/opt/app'', ''/var/cache/_opt_app.tar''),
          \<lparr>trace = [FileDirectoryExists ''/opt/app'', FileFileExists ''/opt/app'',
                    OsPathExists ''/var/cache/_opt_app.tar'',
                    StateHigh \<lparr>hd_id = ''/var/cache/_opt_app.tar'',
                      hd_name = ''/var/cache/_opt_app.tar'', hd_source = ''salt://app.tar'',
                      hd_source_hash = None, hd_makedirs = True, hd_saltenv = ''base''\<rparr>,
                    FileMakedirs ''/opt''],
            world = [(''/opt'', Dir), (''/var/cache/_opt_app.tar'', File)]\<rparr>) \<and>
   py_len (PList [''a.txt'', ''b.txt'']) \<noteq> 0 \<and>
   extracted demo_env ''/opt'' ''salt://app.tar'' ''tar'' None None (Some ''/opt/app'') False
       (start []) =
     Inr (\<lparr>ret_name = ''/opt'', ret_result = Some True,
            ret_changes =
              [''directories_created'' \<mapsto> PSeq (PList [''/opt'', ''/opt/app'']),
               ''extracted_files'' \<mapsto> PSeq (PList [''a.txt'', ''b.txt''])],
            ret_comment = ''salt://app.tar extracted in /opt''\<rparr>,
          \<lparr>trace = [FileDirectoryExists ''/opt/app'', FileFileExists ''/opt/app'',
                    OsPathExists ''/var/cache/_opt_app.tar'',
                    StateHigh \<lparr>hd_id = ''/var/cache/_opt_app.tar'',
                      hd_name = ''/var/cache/_opt_app.tar'', hd_source = ''salt://app.tar'',
                      hd_source_hash = None, hd_makedirs = True, hd_saltenv = ''base''\<rparr>,
                    FileMakedirs ''/opt'',
                    TarfileGetnames ''/var/cache/_opt_app.tar'',
                    TarfileExtractall ''/var/cache/_opt_app.tar'' ''/opt'',
                    OsUnlink ''/var/cache/_opt_app.tar''],
            world = [(''/opt/a.txt'', File), (''/opt/b.txt'', File), (''/opt'', Dir)]\<rparr>)"
proof -
  let ?s1 = "\<lparr>trace = [FileDirectoryExists ''/opt/app'', FileFileExists ''/opt/app'',
                    OsPathExists ''/var/cache/_opt_app.tar'',
                    StateHigh \<lparr>hd_id = ''/var/cache/_opt_app.tar'',
                      hd_name = ''/var/cache/_opt_app.tar'', hd_source = ''salt://app.tar'',
                      hd_source_hash = None, hd_makedirs = True, hd_saltenv = ''base''\<rparr>,
                    FileMakedirs ''/opt''],
            world = [(''/opt'', Dir), (''/var/cache/_opt_app.tar'', File)]\<rparr>"
  let ?s2 = "\<lparr>trace = trace ?s1 @ [TarfileGetnames ''/var/cache/_opt_app.tar'',
                    TarfileExtractall ''/var/cache/_opt_app.tar'' ''/opt''],
            world = [(''/opt/a.txt'', File), (''/opt/b.txt'', File), (''/opt'', Dir),
                     (''/var/cache/_opt_app.tar'', File)]\<rparr>"
  have h1: "prepare demo_env (initial_ret ''/opt'') ''/opt'' ''salt://app.tar'' ''tar'' None
       (Some ''/opt/app'') (start []) = Inr (Continue (''/opt/app'', ''/var/cache/_opt_app.tar''), ?s1)"
    by (simp add: run_defs)
  have h2: "extract_files demo_env (initial_ret ''/opt'') ''/opt'' ''tar'' None
       ''/var/cache/_opt_app.tar'' ?s1 = Inr (Continue (PList [''a.txt'', ''b.txt'']), ?s2)"
    by (simp add: run_defs)
  have h3: "py_len (PList [''a.txt'', ''b.txt'']) \<noteq> 0"
    by simp
  show ?thesis
    using h1 nonempty_extraction_changed [OF h1 h2 h3, where keep = False]
    by (simp add: demo_env_def remove_path_def)
qed

text \<open>
  C4, as the code has it. When the extraction yields \<open>files\<close> with
  \<open>len(files)\<close> zero, \<open>file.remove\<close> is called on \<open>if_missing\<close>
  and, when it returns, the result is \<open>False\<close> with no change and the comment
  \<open>Can't extract content of <source>\<close>, with a capital C.
\<close>

theorem empty_extraction_failed:
  assumes "prepare env (initial_ret name) name source archive_format source_hash if_missing s =
             Inr (Continue (p, filename), s1)"
    and "extract_files env (initial_ret name) name archive_format tar_options filename s1 =
             Inr (Continue files, s2)"
    and "py_len files = 0"
  shows "p = (case if_missing of None \<Rightarrow> name | Some m \<Rightarrow> m) \<and>
         extracted env name source archive_format tar_options source_hash if_missing keep s =
           (case salt_file_remove env p (world s2) of
              Inl e \<Rightarrow> Inl e
            | Inr (u, w3) \<Rightarrow>
                Inr (\<lparr>ret_name = name, ret_result = Some False, ret_changes = Map.empty,
                       ret_comment = ''Can't extract content of '' @ source\<rparr>,
                     \<lparr>trace = trace s2 @ [FileRemove p], world = w3\<rparr>))"
proof -
  note pc = prepare_Continue [OF assms(1)]
  have "extracted env name source archive_format tar_options source_hash if_missing keep s =
          finish env (initial_ret name) name source p keep filename files s2"
    by (rule extracted_after_files [OF assms(1,2)])
  with pc(2) show ?thesis
    by (simp only: finish_empty [OF assms(3)] simp_thms)
qed

theorem empty_extraction_failed_witness:
  "py_len (PList []) = 0 \<and>
   extracted empty_zip ''/opt'' ''salt://app.zip'' ''zip'' None None None False (start []) =
     Inr (\<lparr>ret_name = ''/opt'', ret_result = Some False, ret_changes = Map.empty,
            ret_comment = ''Can't extract content of salt://app.zip''\<rparr>,
          \<lparr>trace = [FileDirectoryExists ''/opt'', FileFileExists ''/opt'',
                    OsPathExists ''/var/cache/_opt.zip'',
                    StateHigh \<lparr>hd_id = ''/var/cache/_opt.zip'',
                      hd_name = ''/var/cache/_opt.zip'', hd_source = ''salt://app.zip'',
                      hd_source_hash = None, hd_makedirs = True, hd_saltenv = ''base''\<rparr>,
                    FileMakedirs ''/opt'',
                    ArchiveUnzip ''/var/cache/_opt.zip'' ''/opt'',
                    FileRemove ''/opt''],
            world = [(''/var/cache/_opt.zip'', File)]\<rparr>)"
proof -
  let ?s1 = "\<lparr>trace = [FileDirectoryExists ''/opt'', FileFileExists ''/opt'',
                    OsPathExists ''/var/cache/_opt.zip'',
                    StateHigh \<lparr>hd_id = ''/var/cache/_opt.zip'',
                      hd_name = ''/var/cache/_opt.zip'', hd_source = ''salt://app.zip'',
                      hd_source_hash = None, hd_makedirs = True, hd_saltenv = ''base''\<rparr>,
                    FileMakedirs ''/opt''],
            world = [(''/opt'', Dir), (''/var/cache/_opt.zip'', File)]\<rparr>"
  let ?s2 = "\<lparr>trace = trace ?s1 @ [ArchiveUnzip ''/var/cache/_opt.zip'' ''/opt''],
            world = [(''/opt'', Dir), (''/var/cache/_opt.zip'', File)]\<rparr>"
  have h1: "prepare empty_zip (initial_ret ''/opt'') ''/opt'' ''salt://app.zip'' ''zip'' None
       None (start []) = Inr (Continue (''/opt'', ''/var/cache/_opt.zip''), ?s1)"
    by (simp add: empty_zip_def run_defs)
  have h2: "extract_files empty_zip (initial_ret ''/opt'') ''/opt'' ''zip'' None
       ''/var/cache/_opt.zip'' ?s1 = Inr (Continue (PList []), ?s2)"
    by (simp add: empty_zip_def run_defs)
  have h3: "py_len (PList []) = 0"
    by simp
  show ?thesis
    using empty_extraction_failed [OF h1 h2 h3, where keep = False]
    by (simp add: empty_zip_def demo_env_def remove_path_def)
qed

text \<open>
  C4 as the claim words it fails on the comment: with a zip archive that lists no
  file, the result is \<open>False\<close> and the comment is
  \<open>Can't extract content of salt://app.zip\<close>, not
  \<open>can't extract content of salt://app.zip\<close>.
\<close>

theorem empty_extraction_message_counterexample:
  "extract_files empty_zip (initial_ret ''/opt'') ''/opt'' ''zip'' None ''/var/cache/_opt.zip''
       \<lparr>trace = [FileDirectoryExists ''/opt'', FileFileExists ''/opt'',
                 OsPathExists ''/var/cache/_opt.zip'',
                 StateHigh \<lparr>hd_id = ''/var/cache/_opt.zip'',
                   hd_name = ''/var/cache/_opt.zip'', hd_source = ''salt://app.zip'',
                   hd_source_hash = None, hd_makedirs = True, hd_saltenv = ''base''\<rparr>,
                 FileMakedirs ''/opt''],
         world = [(''/opt'', Dir), (''/var/cache/_opt.zip'', File)]\<rparr> =
     Inr (Continue (PList []),
          \<lparr>trace = [FileDirectoryExists ''/opt'', FileFileExists ''/opt'',
                    OsPathExists ''/var/cache/_opt.zip'',
                    StateHigh \<lparr>hd_id = ''/var/cache/_opt.zip'',
                      hd_name = ''/var/cache/_opt.zip'', hd_source = ''salt://app.zip'',
                      hd_source_hash = None, hd_makedirs = True, hd_saltenv = ''base''\<rparr>,
                    FileMakedirs ''/opt'',
                    ArchiveUnzip ''/var/cache/_opt.zip'' ''/opt''],
            world = [(''/opt'', Dir), (''/var/cache/_opt.zip'', File)]\<rparr>) \<and>
   ret_result (fst (projr (extracted empty_zip ''/opt'' ''salt://app.zip'' ''zip'' None None None
       False (start [])))) = Some False \<and>
   ret_comment (fst (projr (extracted empty_zip ''/opt'' ''salt://app.zip'' ''zip'' None None None
       False (start [])))) = ''Can't extract content of salt://app.zip'' \<and>
   ret_comment (fst (projr (extracted empty_zip ''/opt'' ''salt://app.zip'' ''zip'' None None None
       False (start [])))) \<noteq> ''can't extract content of salt://app.zip''"
  by (simp add: extracted_def finish_def empty_zip_def run_defs)

subsection \<open>The tar tool\<close>

text \<open>
  The loop of lines 150 to 152 in closed form: it asks whether the letters \<open>x\<close>
  and \<open>f\<close> occur anywhere in the options, puts \<open>-x\<close> in front when
  \<open>x\<close> does not, then \<open>-f\<close> in front of that when \<open>f\<close> does not,
  and keeps the options given at the end.
\<close>

lemma normalize_tar_options_eq:
  "normalize_tar_options opts =
     (if CHR ''f'' \<in> set opts then [] else ''-f '') @
     (if CHR ''x'' \<in> set opts then [] else ''-x '') @ opts"
  by (simp add: normalize_tar_options_def add_opt_def)

text \<open>
  C7. The loop does not make sure that the command has an extract flag and a file flag.
  For \<open>J\<close>, the example of the docstring, \<open>extracted\<close> runs
  \<open>tar -f -x J "/var/cache/_opt.tar"\<close>: \<open>-f\<close> comes first, so \<open>-x\<close>
  stands where \<open>-f\<close> takes the name of the archive, and the cache file comes
  last. For \<open>--exclude=foo -z\<close> the letters occur in \<open>exclude\<close> and
  \<open>foo\<close>, nothing is put in front, and \<open>extracted\<close> runs
  \<open>tar --exclude=foo -z "/var/cache/_opt.tar"\<close>, with neither flag. (The tar
  tool of this environment exits with code 2 whatever the command.)
\<close>

theorem tar_options_flags_not_ensured:
  \<open>extracted tar_fails ''/opt'' ''salt://app.tar.lzma'' ''tar'' (Some ''J'') None None False
       (start []) =
     Inr (\<lparr>ret_name = ''/opt'', ret_result = Some False,
            ret_changes = [''retcode'' \<mapsto> PInt 2, ''stdout'' \<mapsto> PSeq (PStr ''''),
                           ''stderr'' \<mapsto> PSeq (PStr ''tar: Error is not recoverable'')],
            ret_comment = ''''\<rparr>,
          \<lparr>trace = [FileDirectoryExists ''/opt'', FileFileExists ''/opt'',
                    OsPathExists ''/var/cache/_opt.tar'',
                    StateHigh \<lparr>hd_id = ''/var/cache/_opt.tar'',
                      hd_name = ''/var/cache/_opt.tar'', hd_source = ''salt://app.tar.lzma'',
                      hd_source_hash = None, hd_makedirs = True, hd_saltenv = ''base''\<rparr>,
                    FileMakedirs ''/opt'',
                    CmdRunAll ''tar -f -x J "/var/cache/_opt.tar"'' ''/opt''],
            world = [(''/opt'', Dir), (''/var/cache/_opt.tar'', File)]\<rparr>) \<and>
   extracted tar_fails ''/opt'' ''salt://app.tar.gz'' ''tar'' (Some ''--exclude=foo -z'') None
       None False (start []) =
     Inr (\<lparr>ret_name = ''/opt'', ret_result = Some False,
            ret_changes = [''retcode'' \<mapsto> PInt 2, ''stdout'' \<mapsto> PSeq (PStr ''''),
                           ''stderr'' \<mapsto> PSeq (PStr ''tar: Error is not recoverable'')],
            ret_comment = ''''\<rparr>,
          \<lparr>trace = [FileDirectoryExists ''/opt'', FileFileExists ''/opt'',
                    OsPathExists ''/var/cache/_opt.tar'',
                    StateHigh \<lparr>hd_id = ''/var/cache/_opt.tar'',
                      hd_name = ''/var/cache/_opt.tar'', hd_source = ''salt://app.tar.gz'',
                      hd_source_hash = None, hd_makedirs = True, hd_saltenv = ''base''\<rparr>,
                    FileMakedirs ''/opt'',
                    CmdRunAll ''tar --exclude=foo -z "/var/cache/_opt.tar"'' ''/opt''],
            world = [(''/opt'', Dir), (''/var/cache/_opt.tar'', File)]\<rparr>)\<close>
  by (simp add: extracted_def tar_fails_def run_defs cmd_result_dict_def
      normalize_tar_options_def add_opt_def tar_command_def)

text \<open>
  C8. With format tar and \<open>tar_options\<close> set, when the tar command exits
  with a code other than zero, \<open>extracted\<close> returns \<open>False\<close> with the
  dictionary of \<open>cmd.run_all\<close> (exit code, standard output, standard error) as
  the changes, and an empty comment. The command is the last call of the run, and
  nothing before it was \<open>os.unlink\<close> or \<open>file.remove\<close>: no cleanup of
  the cache, no removal of \<open>if_missing\<close>.
\<close>

theorem tar_tool_failure_stops:
  assumes "prepare env (initial_ret name) name source archive_format source_hash if_missing s =
             Inr (Continue (p, filename), s1)"
    and "archive_format = ''tar''"
    and "tar_options = Some opts"
    and "cmd = tar_command (normalize_tar_options opts) filename"
    and "salt_cmd_run_all env cmd name (world s1) = Inr (results, w2)"
    and "retcode results \<noteq> 0"
  shows "(\<exists>evs. trace s1 = trace s @ evs \<and>
                (\<forall>q. OsUnlink q \<notin> set evs \<and> FileRemove q \<notin> set evs)) \<and>
         extracted env name source archive_format tar_options source_hash if_missing keep s =
           Inr (\<lparr>ret_name = name, ret_result = Some False,
                  ret_changes = cmd_result_dict results, ret_comment = ''''\<rparr>,
                \<lparr>trace = trace s1 @ [CmdRunAll cmd name], world = w2\<rparr>)"
proof -
  note pc = prepare_Continue [OF assms(1)]
  have "extract_files env (initial_ret name) name archive_format tar_options filename s1 =
          Inr (Return ((initial_ret name)\<lparr>ret_result := Some False,
                 ret_changes := cmd_result_dict results\<rparr>),
               \<lparr>trace = trace s1 @ [CmdRunAll cmd name], world = w2\<rparr>)"
    using extract_files_tar_tool [of env opts filename name s1 results w2 "initial_ret name"]
      assms(2-6) by simp
  from extracted_after_return [OF assms(1) this] pc(5) show ?thesis
    by (simp add: initial_ret_def)
qed

theorem tar_tool_failure_stops_witness:
  "salt_cmd_run_all tar_fails (tar_command (normalize_tar_options ''J'') ''/var/cache/_opt.tar'')
       ''/opt'' [(''/opt'', Dir), (''/var/cache/_opt.tar'', File)] =
     Inr (\<lparr>retcode = 2, stdout = '''', stderr = ''tar: Error is not recoverable''\<rparr>,
          [(''/opt'', Dir), (''/var/cache/_opt.tar'', File)]) \<and>
   extracted tar_fails ''/opt'' ''salt://app.tar.xz'' ''tar'' (Some ''J'') None None False
       (start []) =
     Inr (\<lparr>ret_name = ''/opt'', ret_result = Some False,
            ret_changes = [''retcode'' \<mapsto> PInt 2, ''stdout'' \<mapsto> PSeq (PStr ''''),
                           ''stderr'' \<mapsto> PSeq (PStr ''tar: Error is not recoverable'')],
            ret_comment = ''''\<rparr>,
          \<lparr>trace = [FileDirectoryExists ''/opt'', FileFileExists ''/opt'',
                    OsPathExists ''/var/cache/_opt.tar'',
                    StateHigh \<lparr>hd_id = ''/var/cache/_opt.tar'',
                      hd_name = ''/var/cache/_opt.tar'', hd_source = ''salt://app.tar.xz'',
                      hd_source_hash = None, hd_makedirs = True, hd_saltenv = ''base''\<rparr>,
                    FileMakedirs ''/opt'',
                    CmdRunAll (tar_command ''-f -x J'' ''/var/cache/_opt.tar'') ''/opt''],
            world = [(''/opt'', Dir), (''/var/cache/_opt.tar'', File)]\<rparr>)"
proof -
  let ?s1 = "\<lparr>trace = [FileDirectoryExists ''/opt'', FileFileExists ''/opt'',
                    OsPathExists ''/var/cache/_opt.tar'',
                    StateHigh \<lparr>hd_id = ''/var/cache/_opt.tar'',
                      hd_name = ''/var/cache/_opt.tar'', hd_source = ''salt://app.tar.xz'',
                      hd_source_hash = None, hd_makedirs = True, hd_saltenv = ''base''\<rparr>,
                    FileMakedirs ''/opt''],
            world = [(''/opt'', Dir), (''/var/cache/_opt.tar'', File)]\<rparr>"
  let ?results = "\<lparr>retcode = 2, stdout = '''', stderr = ''tar: Error is not recoverable''\<rparr>"
  have h1: "prepare tar_fails (initial_ret ''/opt'') ''/opt'' ''salt://app.tar.xz'' ''tar'' None
       None (start []) = Inr (Continue (''/opt'', ''/var/cache/_opt.tar''), ?s1)"
    by (simp add: tar_fails_def run_defs)
  have h5: "salt_cmd_run_all tar_fails
       (tar_command (normalize_tar_options ''J'') ''/var/cache/_opt.tar'') ''/opt'' (world ?s1) =
       Inr (?results, [(''/opt'', Dir), (''/var/cache/_opt.tar'', File)])"
    by (simp add: tar_fails_def demo_env_def)
  have h6: "retcode ?results \<noteq> 0"
    by simp
  show ?thesis
    using h5 tar_tool_failure_stops [OF h1 refl refl refl h5 h6, where keep = False]
    by (simp add: cmd_result_dict_def normalize_tar_options_def add_opt_def)
qed

text \<open>
  C9. With format tar and \<open>tar_options\<close> set, when the tar command exits
  with code zero (and the probe for bsdtar returns), \<open>files\<close> is the captured
  output, or \<open>no tar output so far\<close> when that is empty: never empty. So the
  run ends in the branch of C3, with result \<open>True\<close>, and \<open>file.remove\<close>
  is not called.
\<close>

theorem tar_tool_success_changed:
  assumes "prepare env (initial_ret name) name source archive_format source_hash if_missing s =
             Inr (Continue (p, filename), s1)"
    and "archive_format = ''tar''"
    and "tar_options = Some opts"
    and "cmd = tar_command (normalize_tar_options opts) filename"
    and "salt_cmd_run_all env cmd name (world s1) = Inr (results, w2)"
    and "retcode results = 0"
    and "salt_cmd_retcode env ''tar --version | grep bsdtar'' w2 = Inr (rc, w3)"
    and "captured = (if rc = 0 then stderr results else stdout results)"
    and "files = (if captured = [] then ''no tar output so far'' else captured)"
    and "s2 = \<lparr>trace = trace s1 @ [CmdRunAll cmd name, CmdRetcode ''tar --version | grep bsdtar''],
               world = w3\<rparr>"
  shows "files \<noteq> [] \<and>
         (\<exists>evs. trace s2 = trace s @ evs \<and> (\<forall>q. FileRemove q \<notin> set evs)) \<and>
         extracted env name source archive_format tar_options source_hash if_missing keep s =
           (if keep then
              Inr (\<lparr>ret_name = name, ret_result = Some True,
                     ret_changes =
                       [''directories_created'' \<mapsto>
                          PSeq (PList (if p \<noteq> name then [name, p] else [name])),
                        ''extracted_files'' \<mapsto> PSeq (PStr files)],
                     ret_comment = source @ '' extracted in '' @ name\<rparr>, s2)
            else
              case os_unlink env filename (world s2) of
                Inl e \<Rightarrow> Inl e
              | Inr (u, w4) \<Rightarrow>
                  Inr (\<lparr>ret_name = name, ret_result = Some True,
                         ret_changes =
                           [''directories_created'' \<mapsto>
                              PSeq (PList (if p \<noteq> name then [name, p] else [name])),
                            ''extracted_files'' \<mapsto> PSeq (PStr files)],
                         ret_comment = source @ '' extracted in '' @ name\<rparr>,
                       \<lparr>trace = trace s2 @ [OsUnlink filename], world = w4\<rparr>))"
proof -
  note pc = prepare_Continue [OF assms(1)]
  have ne: "files \<noteq> []"
    using assms(9) by simp
  have ef: "extract_files env (initial_ret name) name archive_format tar_options filename s1 =
          Inr (Continue (PStr files), s2)"
    using extract_files_tar_tool [of env opts filename name s1 results w2 "initial_ret name"]
      assms(2-10) by simp
  have len: "py_len (PStr files) \<noteq> 0"
    using ne by simp
  from pc(5) obtain evs where evs: "trace s1 = trace s @ evs" "\<forall>q. FileRemove q \<notin> set evs"
    by blast
  have "trace s2 = trace s @ (evs @ [CmdRunAll cmd name, CmdRetcode ''tar --version | grep bsdtar''])"
    using evs(1) assms(10) by simp
  moreover have "\<forall>q. FileRemove q \<notin>
      set (evs @ [CmdRunAll cmd name, CmdRetcode ''tar --version | grep bsdtar''])"
    using evs(2) by simp
  ultimately have tr: "\<exists>evs. trace s2 = trace s @ evs \<and> (\<forall>q. FileRemove q \<notin> set evs)"
    by blast
  have "extracted env name source archive_format tar_options source_hash if_missing keep s =
          finish env (initial_ret name) name source p keep filename (PStr files) s2"
    by (rule extracted_after_files [OF assms(1) ef])
  with ne tr show ?thesis
    by (simp only: finish_nonempty [OF len] simp_thms)
qed

theorem tar_tool_success_changed_witness:
  "salt_cmd_run_all demo_env (tar_command (normalize_tar_options ''J'') ''/var/cache/_opt.tar'')
       ''/opt'' [(''/opt'', Dir), (''/var/cache/_opt.tar'', File)] =
     Inr (\<lparr>retcode = 0, stdout = '''', stderr = ''''\<rparr>,
          [(''/opt/a.txt'', File), (''/opt/b.txt'', File), (''/opt'', Dir),
           (''/var/cache/_opt.tar'', File)]) \<and>
   extracted demo_env ''/opt'' ''salt://app.tar.xz'' ''tar'' (Some ''J'') None None True
       (start []) =
     Inr (\<lparr>ret_name = ''/opt'', ret_result = Some True,
            ret_changes =
              [''directories_created'' \<mapsto> PSeq (PList [''/opt'']),
               ''extracted_files'' \<mapsto> PSeq (PStr ''no tar output so far'')],
            ret_comment = ''salt://app.tar.xz extracted in /opt''\<rparr>,
          \<lparr>trace = [FileDirectoryExists ''/opt'', FileFileExists ''/opt'',
                    OsPathExists ''/var/cache/_opt.tar'',
                    StateHigh \<lparr>hd_id = ''/var/cache/_opt.tar'',
                      hd_name = ''/var/cache/_opt.tar'', hd_source = ''salt://app.tar.xz'',
                      hd_source_hash = None, hd_makedirs = True, hd_saltenv = ''base''\<rparr>,
                    FileMakedirs ''/opt'',
                    CmdRunAll (tar_command ''-f -x J'' ''/var/cache/_opt.tar'') ''/opt'',
                    CmdRetcode ''tar --version | grep bsdtar''],
            world = [(''/opt/a.txt'', File), (''/opt/b.txt'', File), (''/opt'', Dir),
                     (''/var/cache/_opt.tar'', File)]\<rparr>)"
proof -
  let ?s1 = "\<lparr>trace = [FileDirectoryExists ''/opt'', FileFileExists ''/opt'',
                    OsPathExists ''/var/cache/_opt.tar'',
                    StateHigh \<lparr>hd_id = ''/var/cache/_opt.tar'',
                      hd_name = ''/var/cache/_opt.tar'', hd_source = ''salt://app.tar.xz'',
                      hd_source_hash = None, hd_makedirs = True, hd_saltenv = ''base''\<rparr>,
                    FileMakedirs ''/opt''],
            world = [(''/opt'', Dir), (''/var/cache/_opt.tar'', File)]\<rparr>"
  let ?w2 = "[(''/opt/a.txt'', File), (''/opt/b.txt'', File), (''/opt'', Dir),
              (''/var/cache/_opt.tar'', File)]"
  let ?results = "\<lparr>retcode = 0, stdout = '''', stderr = ''''\<rparr>"
  have h1: "prepare demo_env (initial_ret ''/opt'') ''/opt'' ''salt://app.tar.xz'' ''tar'' None
       None (start []) = Inr (Continue (''/opt'', ''/var/cache/_opt.tar''), ?s1)"
    by (simp add: run_defs)
  have h5: "salt_cmd_run_all demo_env
       (tar_command (normalize_tar_options ''J'') ''/var/cache/_opt.tar'') ''/opt'' (world ?s1) =
       Inr (?results, ?w2)"
    by (simp add: demo_env_def unpack_def)
  have h6: "retcode ?results = 0"
    by simp
  have h7: "salt_cmd_retcode demo_env ''tar --version | grep bsdtar'' ?w2 = Inr (1, ?w2)"
    by (simp add: demo_env_def)
  show ?thesis
    using h5 tar_tool_success_changed [OF h1 refl refl refl h5 h6 h7 refl refl refl,
        where keep = True]
    by (simp add: normalize_tar_options_def add_opt_def)
qed

end
